theory Spec2Isabelle
  imports Complex_Main
begin

section \<open>Water-consumption estimation model of \<open>src/routes.ts\<close>\<close>

text \<open>
  The two helper functions at the end of \<open>src/routes.ts\<close>,
  \<open>calculateInitialWaterConsumption\<close> and \<open>calculateDailyWaterConsumption\<close>, are pure:
  they read the fields of one or two quiz rows and build an object of twelve numbers.

  Numbers. A JavaScript number is modelled as an exact rational (\<^typ>\<open>rat\<close>): the decimal
  constants of the source are the fractions they denote (\<open>0.623\<close> is \<open>623 / 1000\<close>),
  and \<open>+\<close>, \<open>*\<close>, \<open>/\<close> do not round. The values \<open>NaN\<close> and the infinities do not occur, since
  every numeric field is a finite number when it is present. The numeric columns of the
  quiz tables are integers; the model lets a numeric field hold any rational, which
  covers them.

  Optional fields. Every column of the two quiz tables may be absent (\<open>undefined\<close> or
  \<open>null\<close>); a field is an \<^typ>\<open>'a option\<close> and \<^term>\<open>None\<close> is the absent field. The column
  \<open>greywater\<close> is read by neither function and is left out.
\<close>

subsection \<open>Data model\<close>

record initial_response =
  appliances :: "string list option"
  bathsPerMonth :: "rat option"
  dishwasherType :: "string option"
  dishwasherFrequency :: "rat option"
  laundryType :: "string option"
  laundryFrequency :: "rat option"
  hasGarden :: "bool option"
  gardenArea :: "rat option"
  gardenFrequency :: "rat option"
  hasPool :: "bool option"
  carWashMethod :: "string option"
  carWashFrequency :: "rat option"
  utilityPercentage :: "rat option"
  shoppingHabits :: "string option"

record daily_response =
  showerMinutes :: "rat option"
  bathroomSinkMinutes :: "rat option"
  kitchenSinkMinutes :: "rat option"
  toiletFlushes :: "rat option"
  rainwaterCollected :: "rat option"
  milesDriven :: "rat option"
  recycledPaper :: "rat option"
  recycledPlastic :: "rat option"
  recycledBottlesCans :: "rat option"
  veggiesConsumed :: "rat option"
  meatConsumed :: "rat option"
  petFoodUsed :: "rat option"

record consumption =
  totalGallons :: rat
  showerGallons :: rat
  toiletGallons :: rat
  kitchenGallons :: rat
  dishwasherGallons :: rat
  laundryGallons :: rat
  gardenGallons :: rat
  poolGallons :: rat
  carWashGallons :: rat
  energyGallons :: rat
  shoppingGallons :: rat
  otherGallons :: rat

subsection \<open>JavaScript primitives used by the two functions\<close>

text \<open>\<open>if (x)\<close> on a numeric field: absent and \<open>0\<close> are falsy, every other number is truthy.\<close>

definition truthy :: "rat option \<Rightarrow> bool" where
  "truthy x = (case x of None \<Rightarrow> False | Some v \<Rightarrow> v \<noteq> 0)"

text \<open>\<open>if (b)\<close> on a boolean field: absent and \<open>false\<close> are falsy.\<close>

definition truthy_bool :: "bool option \<Rightarrow> bool" where
  "truthy_bool b = (case b of None \<Rightarrow> False | Some v \<Rightarrow> v)"

text \<open>
  The number held by a numeric field. The source reads a field in arithmetic only under
  its own truthiness test, so the value given to an absent field is never used.
\<close>

definition num :: "rat option \<Rightarrow> rat" where
  "num x = (case x of None \<Rightarrow> 0 | Some v \<Rightarrow> v)"

text \<open>\<open>response.appliances || []\<close>: an absent list is replaced by the empty one.\<close>

definition or_empty :: "string list option \<Rightarrow> string list" where
  "or_empty a = (case a of None \<Rightarrow> [] | Some xs \<Rightarrow> xs)"

text \<open>
  \<open>initialResponse.appliances?.includes(tag)\<close>: on an absent list the optional chain
  yields \<open>undefined\<close>, which is falsy, and \<open>includes\<close> is not called.
\<close>

definition includes_opt :: "string list option \<Rightarrow> string \<Rightarrow> bool" where
  "includes_opt a tag = (case a of None \<Rightarrow> False | Some xs \<Rightarrow> tag \<in> set xs)"

text \<open>
  \<open>Math.round\<close>: the nearest integer, a tie going up (\<open>Math.round(2.5)\<close> is \<open>3\<close>,
  \<open>Math.round(-2.5)\<close> is \<open>-2\<close>). The result is again a number.
\<close>

definition Math_round :: "rat \<Rightarrow> rat" where
  "Math_round x = of_int \<lfloor>x + 1 / 2\<rfloor>"

subsection \<open>Shared tail of both functions\<close>

text \<open>The sum of the eleven categories, in the order the source adds them.\<close>

definition category_sum :: "consumption \<Rightarrow> rat" where
  "category_sum c =
     showerGallons c + toiletGallons c + kitchenGallons c + dishwasherGallons c +
     laundryGallons c + gardenGallons c + poolGallons c + carWashGallons c +
     energyGallons c + shoppingGallons c + otherGallons c"

text \<open>
  \<open>if (totalGallons < 0) { otherGallons += Math.abs(totalGallons); totalGallons = 0; }\<close>
\<close>

definition nonneg_correction :: "consumption \<Rightarrow> consumption" where
  "nonneg_correction c =
     (if totalGallons c < 0
      then c\<lparr>otherGallons := otherGallons c + \<bar>totalGallons c\<bar>, totalGallons := 0\<rparr>
      else c)"

text \<open>The returned object: \<open>Math.round\<close> of each of the twelve values.\<close>

definition round_all :: "consumption \<Rightarrow> consumption" where
  "round_all c =
     \<lparr>totalGallons = Math_round (totalGallons c),
      showerGallons = Math_round (showerGallons c),
      toiletGallons = Math_round (toiletGallons c),
      kitchenGallons = Math_round (kitchenGallons c),
      dishwasherGallons = Math_round (dishwasherGallons c),
      laundryGallons = Math_round (laundryGallons c),
      gardenGallons = Math_round (gardenGallons c),
      poolGallons = Math_round (poolGallons c),
      carWashGallons = Math_round (carWashGallons c),
      energyGallons = Math_round (energyGallons c),
      shoppingGallons = Math_round (shoppingGallons c),
      otherGallons = Math_round (otherGallons c)\<rparr>"

subsection \<open>\<open>calculateInitialWaterConsumption\<close>\<close>

text \<open>
  The local variables of the function after steps 1 to 9 and the line
  \<open>totalGallons = showerGallons + ... + otherGallons\<close>, before the negative-total test.
\<close>

definition initial_raw :: "initial_response \<Rightarrow> consumption" where
  "initial_raw response =
     (let appls = or_empty (appliances response);
          shower1 = (if ''showerhead'' \<in> set appls then 0 - 63 else 0);
          shower2 = (if truthy (bathsPerMonth response)
                     then shower1 + (80 * num (bathsPerMonth response)) / 30
                     else shower1);
          dishwasher =
            (if dishwasherType response = Some ''yes_efficient''
                \<and> truthy (dishwasherFrequency response)
             then 0 + (4 * num (dishwasherFrequency response)) / 30
             else if dishwasherType response = Some ''yes_not_efficient''
                \<and> truthy (dishwasherFrequency response)
             then 0 + (10 * num (dishwasherFrequency response)) / 30
             else 0);
          laundry =
            (if laundryType response = Some ''yes_efficient''
                \<and> truthy (laundryFrequency response)
             then 0 + (14 * num (laundryFrequency response)) / 30
             else if laundryType response = Some ''yes_not_efficient''
                \<and> truthy (laundryFrequency response)
             then 0 + (20 * num (laundryFrequency response)) / 30
             else 0);
          garden =
            (if truthy_bool (hasGarden response) \<and> truthy (gardenArea response)
                \<and> truthy (gardenFrequency response)
             then 0 + (623 / 1000 * num (gardenArea response)
                         * num (gardenFrequency response)) / 30
             else 0);
          pool = (if truthy_bool (hasPool response) then 0 + 65 else 0);
          carWash =
            (if carWashMethod response = Some ''garden_hose''
                \<and> truthy (carWashFrequency response)
             then 0 + (100 * num (carWashFrequency response)) / 30
             else if carWashMethod response = Some ''drive_through''
                \<and> truthy (carWashFrequency response)
             then 0 + (35 * num (carWashFrequency response)) / 30
             else if carWashMethod response = Some ''self_service''
                \<and> truthy (carWashFrequency response)
             then 0 + (17 * num (carWashFrequency response)) / 30
             else 0);
          energy =
            (if truthy (utilityPercentage response)
             then 0 + 34 / 100 * num (utilityPercentage response)
             else 0);
          shopping =
            (if shoppingHabits response = Some ''basics'' then 0 + 291
             else if shoppingHabits response = Some ''moderate'' then 0 + 583
             else if shoppingHabits response = Some ''addict'' then 0 + 1000
             else 0);
          locals = \<lparr>totalGallons = 0, showerGallons = shower2, toiletGallons = 0,
                    kitchenGallons = 0, dishwasherGallons = dishwasher,
                    laundryGallons = laundry, gardenGallons = garden,
                    poolGallons = pool, carWashGallons = carWash,
                    energyGallons = energy, shoppingGallons = shopping,
                    otherGallons = 0\<rparr>
      in locals\<lparr>totalGallons := category_sum locals\<rparr>)"

definition calculateInitialWaterConsumption :: "initial_response \<Rightarrow> consumption" where
  "calculateInitialWaterConsumption response =
     round_all (nonneg_correction (initial_raw response))"

subsection \<open>\<open>calculateDailyWaterConsumption\<close>\<close>

text \<open>
  The function copies the baseline object and mutates the copy in twelve numbered steps.
  Each step is a function on the copy; the steps run in the source's order.
\<close>

definition step_showerMinutes ::
  "daily_response \<Rightarrow> initial_response \<Rightarrow> consumption \<Rightarrow> consumption" where
  "step_showerMinutes dailyResponse initialResponse c =
     (if truthy (showerMinutes dailyResponse)
      then if includes_opt (appliances initialResponse) ''showerhead''
           then c\<lparr>showerGallons :=
                    showerGallons c + 18 / 10 * num (showerMinutes dailyResponse)\<rparr>
           else c\<lparr>showerGallons :=
                    showerGallons c + 25 / 10 * num (showerMinutes dailyResponse)\<rparr>
      else c)"

definition step_bathroomSinkMinutes ::
  "daily_response \<Rightarrow> initial_response \<Rightarrow> consumption \<Rightarrow> consumption" where
  "step_bathroomSinkMinutes dailyResponse initialResponse c =
     (if truthy (bathroomSinkMinutes dailyResponse)
      then if includes_opt (appliances initialResponse) ''bathroom_sink''
           then c\<lparr>kitchenGallons :=
                    kitchenGallons c + 15 / 10 * num (bathroomSinkMinutes dailyResponse)\<rparr>
           else c\<lparr>kitchenGallons :=
                    kitchenGallons c + 22 / 10 * num (bathroomSinkMinutes dailyResponse)\<rparr>
      else c)"

definition step_kitchenSinkMinutes ::
  "daily_response \<Rightarrow> initial_response \<Rightarrow> consumption \<Rightarrow> consumption" where
  "step_kitchenSinkMinutes dailyResponse initialResponse c =
     (if truthy (kitchenSinkMinutes dailyResponse)
      then if includes_opt (appliances initialResponse) ''kitchen_sink''
           then c\<lparr>kitchenGallons :=
                    kitchenGallons c + 15 / 10 * num (kitchenSinkMinutes dailyResponse)\<rparr>
           else c\<lparr>kitchenGallons :=
                    kitchenGallons c + 22 / 10 * num (kitchenSinkMinutes dailyResponse)\<rparr>
      else c)"

definition step_toiletFlushes ::
  "daily_response \<Rightarrow> initial_response \<Rightarrow> consumption \<Rightarrow> consumption" where
  "step_toiletFlushes dailyResponse initialResponse c =
     (if truthy (toiletFlushes dailyResponse)
      then if includes_opt (appliances initialResponse) ''toilet''
           then c\<lparr>toiletGallons :=
                    toiletGallons c + 16 / 10 * num (toiletFlushes dailyResponse)\<rparr>
           else c\<lparr>toiletGallons :=
                    toiletGallons c + 35 / 10 * num (toiletFlushes dailyResponse)\<rparr>
      else c)"

definition step_rainwaterCollected :: "daily_response \<Rightarrow> consumption \<Rightarrow> consumption" where
  "step_rainwaterCollected dailyResponse c =
     (if truthy (rainwaterCollected dailyResponse)
      then c\<lparr>totalGallons := totalGallons c - num (rainwaterCollected dailyResponse)\<rparr>
      else c)"

definition step_milesDriven :: "daily_response \<Rightarrow> consumption \<Rightarrow> consumption" where
  "step_milesDriven dailyResponse c =
     (if truthy (milesDriven dailyResponse)
      then c\<lparr>otherGallons := otherGallons c + 165 / 1000 * num (milesDriven dailyResponse)\<rparr>
      else c)"

definition step_recycledPaper :: "daily_response \<Rightarrow> consumption \<Rightarrow> consumption" where
  "step_recycledPaper dailyResponse c =
     (if truthy (recycledPaper dailyResponse)
      then c\<lparr>otherGallons := otherGallons c + 4 / 100 * num (recycledPaper dailyResponse)\<rparr>
      else c)"

definition step_recycledPlastic :: "daily_response \<Rightarrow> consumption \<Rightarrow> consumption" where
  "step_recycledPlastic dailyResponse c =
     (if truthy (recycledPlastic dailyResponse)
      then c\<lparr>totalGallons := totalGallons c - 3 / 100 * num (recycledPlastic dailyResponse)\<rparr>
      else c)"

definition step_recycledBottlesCans :: "daily_response \<Rightarrow> consumption \<Rightarrow> consumption" where
  "step_recycledBottlesCans dailyResponse c =
     (if truthy (recycledBottlesCans dailyResponse)
      then c\<lparr>totalGallons :=
               totalGallons c - 3 / 100 * num (recycledBottlesCans dailyResponse)\<rparr>
      else c)"

definition step_veggiesConsumed :: "daily_response \<Rightarrow> consumption \<Rightarrow> consumption" where
  "step_veggiesConsumed dailyResponse c =
     (if truthy (veggiesConsumed dailyResponse)
      then c\<lparr>otherGallons :=
               otherGallons c + 85 / 1000 * num (veggiesConsumed dailyResponse)\<rparr>
      else c)"

definition step_meatConsumed :: "daily_response \<Rightarrow> consumption \<Rightarrow> consumption" where
  "step_meatConsumed dailyResponse c =
     (if truthy (meatConsumed dailyResponse)
      then c\<lparr>otherGallons := otherGallons c + 2 * num (meatConsumed dailyResponse)\<rparr>
      else c)"

definition step_petFoodUsed :: "daily_response \<Rightarrow> consumption \<Rightarrow> consumption" where
  "step_petFoodUsed dailyResponse c =
     (if truthy (petFoodUsed dailyResponse)
      then c\<lparr>otherGallons := otherGallons c + 7 / 10 * num (petFoodUsed dailyResponse)\<rparr>
      else c)"

text \<open>Steps 1 to 12 applied to a copy of the baseline object.\<close>

definition daily_steps ::
  "daily_response \<Rightarrow> initial_response \<Rightarrow> consumption \<Rightarrow> consumption" where
  "daily_steps dailyResponse initialResponse c =
     step_petFoodUsed dailyResponse
       (step_meatConsumed dailyResponse
         (step_veggiesConsumed dailyResponse
           (step_recycledBottlesCans dailyResponse
             (step_recycledPlastic dailyResponse
               (step_recycledPaper dailyResponse
                 (step_milesDriven dailyResponse
                   (step_rainwaterCollected dailyResponse
                     (step_toiletFlushes dailyResponse initialResponse
                       (step_kitchenSinkMinutes dailyResponse initialResponse
                         (step_bathroomSinkMinutes dailyResponse initialResponse
                           (step_showerMinutes dailyResponse initialResponse c)))))))))))"

text \<open>\<open>updatedConsumption.totalGallons = updatedConsumption.showerGallons + ...\<close>\<close>

definition recompute_total :: "consumption \<Rightarrow> consumption" where
  "recompute_total c = c\<lparr>totalGallons := category_sum c\<rparr>"

text \<open>The working copy after the total is recomputed, before the negative-total test.\<close>

definition daily_raw :: "daily_response \<Rightarrow> initial_response \<Rightarrow> consumption" where
  "daily_raw dailyResponse initialResponse =
     recompute_total
       (daily_steps dailyResponse initialResponse
          (calculateInitialWaterConsumption initialResponse))"

definition calculateDailyWaterConsumption ::
  "daily_response \<Rightarrow> initial_response \<Rightarrow> consumption" where
  "calculateDailyWaterConsumption dailyResponse initialResponse =
     round_all (nonneg_correction (daily_raw dailyResponse initialResponse))"

subsection \<open>What the twelve daily steps add to each category\<close>

text \<open>
  The amounts that steps 1 to 4, 6, 7 and 10 to 12 add to the shower, kitchen, toilet and
  other categories, collected per category. They are used to state what \<open>daily_steps\<close>
  computes; the lemma \<open>daily_steps_categories\<close> below derives them from the steps.
\<close>

definition shower_delta :: "daily_response \<Rightarrow> initial_response \<Rightarrow> rat" where
  "shower_delta d r =
     (if truthy (showerMinutes d)
      then (if includes_opt (appliances r) ''showerhead'' then 18 / 10 else 25 / 10)
             * num (showerMinutes d)
      else 0)"

definition kitchen_delta :: "daily_response \<Rightarrow> initial_response \<Rightarrow> rat" where
  "kitchen_delta d r =
     (if truthy (bathroomSinkMinutes d)
      then (if includes_opt (appliances r) ''bathroom_sink'' then 15 / 10 else 22 / 10)
             * num (bathroomSinkMinutes d)
      else 0) +
     (if truthy (kitchenSinkMinutes d)
      then (if includes_opt (appliances r) ''kitchen_sink'' then 15 / 10 else 22 / 10)
             * num (kitchenSinkMinutes d)
      else 0)"

definition toilet_delta :: "daily_response \<Rightarrow> initial_response \<Rightarrow> rat" where
  "toilet_delta d r =
     (if truthy (toiletFlushes d)
      then (if includes_opt (appliances r) ''toilet'' then 16 / 10 else 35 / 10)
             * num (toiletFlushes d)
      else 0)"

definition other_delta :: "daily_response \<Rightarrow> rat" where
  "other_delta d =
     (if truthy (milesDriven d) then 165 / 1000 * num (milesDriven d) else 0) +
     (if truthy (recycledPaper d) then 4 / 100 * num (recycledPaper d) else 0) +
     (if truthy (veggiesConsumed d) then 85 / 1000 * num (veggiesConsumed d) else 0) +
     (if truthy (meatConsumed d) then 2 * num (meatConsumed d) else 0) +
     (if truthy (petFoodUsed d) then 7 / 10 * num (petFoodUsed d) else 0)"

subsection \<open>Concrete quiz rows\<close>

text \<open>
  A profile row holding the column defaults of \<open>initial_quiz_responses\<close> and a daily row
  holding those of \<open>daily_quiz_responses\<close> (every count \<open>0\<close>).
\<close>

definition default_profile :: initial_response where
  "default_profile =
     \<lparr>appliances = Some [], bathsPerMonth = Some 0,
      dishwasherType = Some ''none'', dishwasherFrequency = Some 0,
      laundryType = Some ''none'', laundryFrequency = Some 0,
      hasGarden = Some False, gardenArea = Some 0, gardenFrequency = Some 0,
      hasPool = Some False, carWashMethod = Some ''none'', carWashFrequency = Some 0,
      utilityPercentage = Some 0, shoppingHabits = Some ''basics''\<rparr>"

definition no_activity :: daily_response where
  "no_activity =
     \<lparr>showerMinutes = Some 0, bathroomSinkMinutes = Some 0, kitchenSinkMinutes = Some 0,
      toiletFlushes = Some 0, rainwaterCollected = Some 0, milesDriven = Some 0,
      recycledPaper = Some 0, recycledPlastic = Some 0, recycledBottlesCans = Some 0,
      veggiesConsumed = Some 0, meatConsumed = Some 0, petFoodUsed = Some 0\<rparr>"

text \<open>An efficient dishwasher and an efficient washing machine, each run four times a month.\<close>

definition profile_two_machines :: initial_response where
  "profile_two_machines =
     default_profile\<lparr>dishwasherType := Some ''yes_efficient'', dishwasherFrequency := Some 4,
                     laundryType := Some ''yes_efficient'', laundryFrequency := Some 4\<rparr>"


text \<open>
  Scenario 5 of the specification: a low-flow showerhead, no baths, and no shopping class
  on the object.
\<close>

definition profile_showerhead_only :: initial_response where
  "profile_showerhead_only =
     default_profile\<lparr>appliances := Some [''showerhead''], shoppingHabits := None\<rparr>"

text \<open>The same with two baths a month and one percent of the reference energy source.\<close>

definition profile_deficit :: initial_response where
  "profile_deficit =
     default_profile\<lparr>appliances := Some [''showerhead''], bathsPerMonth := Some 2,
                     utilityPercentage := Some 1, shoppingHabits := None\<rparr>"

text \<open>
  Scenario 3 of the specification: a low-flow showerhead and thirty baths a month, the
  other fields at their defaults.
\<close>

definition profile_showerhead_baths :: initial_response where
  "profile_showerhead_baths =
     default_profile\<lparr>appliances := Some [''showerhead''], bathsPerMonth := Some 30\<rparr>"

text \<open>
  A day with every kind of activity logged.
\<close>

definition busy_day :: daily_response where
  "busy_day =
     \<lparr>showerMinutes = Some 7, bathroomSinkMinutes = Some 3, kitchenSinkMinutes = Some 5,
      toiletFlushes = Some 4, rainwaterCollected = Some 12, milesDriven = Some 20,
      recycledPaper = Some 10, recycledPlastic = Some 6, recycledBottlesCans = Some 8,
      veggiesConsumed = Some 9, meatConsumed = Some 2, petFoodUsed = Some 1\<rparr>"

text \<open>
  A profile whose four enum fields hold strings the function does not test for, each
  with a monthly frequency of ten.
\<close>

definition profile_unrecognised :: initial_response where
  "profile_unrecognised =
     default_profile\<lparr>dishwasherType := Some ''efficient'', dishwasherFrequency := Some 10,
                     laundryType := Some ''inefficient'', laundryFrequency := Some 10,
                     carWashMethod := Some ''hand_wash'', carWashFrequency := Some 10,
                     shoppingHabits := Some ''minimal''\<rparr>"

text \<open>The two rows with every field absent.\<close>

definition absent_profile :: initial_response where
  "absent_profile =
     \<lparr>appliances = None, bathsPerMonth = None, dishwasherType = None,
      dishwasherFrequency = None, laundryType = None, laundryFrequency = None,
      hasGarden = None, gardenArea = None, gardenFrequency = None, hasPool = None,
      carWashMethod = None, carWashFrequency = None, utilityPercentage = None,
      shoppingHabits = None\<rparr>"

definition absent_activity :: daily_response where
  "absent_activity =
     \<lparr>showerMinutes = None, bathroomSinkMinutes = None, kitchenSinkMinutes = None,
      toiletFlushes = None, rainwaterCollected = None, milesDriven = None,
      recycledPaper = None, recycledPlastic = None, recycledBottlesCans = None,
      veggiesConsumed = None, meatConsumed = None, petFoodUsed = None\<rparr>"

subsection \<open>Predicates used to state the properties\<close>

text \<open>An activity log in which no field is logged: each field is absent or \<open>0\<close>.\<close>

definition no_logged_activity :: "daily_response \<Rightarrow> bool" where
  "no_logged_activity d =
     (\<not> truthy (showerMinutes d) \<and> \<not> truthy (bathroomSinkMinutes d) \<and>
      \<not> truthy (kitchenSinkMinutes d) \<and> \<not> truthy (toiletFlushes d) \<and>
      \<not> truthy (rainwaterCollected d) \<and> \<not> truthy (milesDriven d) \<and>
      \<not> truthy (recycledPaper d) \<and> \<not> truthy (recycledPlastic d) \<and>
      \<not> truthy (recycledBottlesCans d) \<and> \<not> truthy (veggiesConsumed d) \<and>
      \<not> truthy (meatConsumed d) \<and> \<not> truthy (petFoodUsed d))"





subsection \<open>Absent fields replaced by defaults\<close>

text \<open>
  The replacement the specification's error policy describes: an absent numeric field
  becomes \<open>0\<close>, an absent boolean \<open>false\<close>, an absent enum field \<open>"none"\<close>, and an absent
  appliances list the empty list. A field that is present is kept.
\<close>

definition default_num :: "rat option \<Rightarrow> rat option" where
  "default_num x = (case x of None \<Rightarrow> Some 0 | Some v \<Rightarrow> Some v)"

definition default_bool :: "bool option \<Rightarrow> bool option" where
  "default_bool b = (case b of None \<Rightarrow> Some False | Some v \<Rightarrow> Some v)"

definition default_enum :: "string option \<Rightarrow> string option" where
  "default_enum s = (case s of None \<Rightarrow> Some ''none'' | Some v \<Rightarrow> Some v)"

definition default_list :: "string list option \<Rightarrow> string list option" where
  "default_list a = (case a of None \<Rightarrow> Some [] | Some xs \<Rightarrow> Some xs)"

definition with_defaults_initial :: "initial_response \<Rightarrow> initial_response" where
  "with_defaults_initial r =
     \<lparr>appliances = default_list (appliances r),
      bathsPerMonth = default_num (bathsPerMonth r),
      dishwasherType = default_enum (dishwasherType r),
      dishwasherFrequency = default_num (dishwasherFrequency r),
      laundryType = default_enum (laundryType r),
      laundryFrequency = default_num (laundryFrequency r),
      hasGarden = default_bool (hasGarden r),
      gardenArea = default_num (gardenArea r),
      gardenFrequency = default_num (gardenFrequency r),
      hasPool = default_bool (hasPool r),
      carWashMethod = default_enum (carWashMethod r),
      carWashFrequency = default_num (carWashFrequency r),
      utilityPercentage = default_num (utilityPercentage r),
      shoppingHabits = default_enum (shoppingHabits r)\<rparr>"

definition with_defaults_daily :: "daily_response \<Rightarrow> daily_response" where
  "with_defaults_daily d =
     \<lparr>showerMinutes = default_num (showerMinutes d),
      bathroomSinkMinutes = default_num (bathroomSinkMinutes d),
      kitchenSinkMinutes = default_num (kitchenSinkMinutes d),
      toiletFlushes = default_num (toiletFlushes d),
      rainwaterCollected = default_num (rainwaterCollected d),
      milesDriven = default_num (milesDriven d),
      recycledPaper = default_num (recycledPaper d),
      recycledPlastic = default_num (recycledPlastic d),
      recycledBottlesCans = default_num (recycledBottlesCans d),
      veggiesConsumed = default_num (veggiesConsumed d),
      meatConsumed = default_num (meatConsumed d),
      petFoodUsed = default_num (petFoodUsed d)\<rparr>"

subsection \<open>Valid activity logs and comparison of categories\<close>

text \<open>A numeric field that is absent or not negative.\<close>

definition nonneg_field :: "rat option \<Rightarrow> bool" where
  "nonneg_field x = (case x of None \<Rightarrow> True | Some v \<Rightarrow> 0 \<le> v)"

definition valid_activity :: "daily_response \<Rightarrow> bool" where
  "valid_activity d =
     (nonneg_field (showerMinutes d) \<and> nonneg_field (bathroomSinkMinutes d) \<and>
      nonneg_field (kitchenSinkMinutes d) \<and> nonneg_field (toiletFlushes d) \<and>
      nonneg_field (rainwaterCollected d) \<and> nonneg_field (milesDriven d) \<and>
      nonneg_field (recycledPaper d) \<and> nonneg_field (recycledPlastic d) \<and>
      nonneg_field (recycledBottlesCans d) \<and> nonneg_field (veggiesConsumed d) \<and>
      nonneg_field (meatConsumed d) \<and> nonneg_field (petFoodUsed d))"

text \<open>Each of the eleven categories of \<open>c\<close> is at most that category of \<open>c'\<close>.\<close>

definition categories_le :: "consumption \<Rightarrow> consumption \<Rightarrow> bool" where
  "categories_le c c' =
     (showerGallons c \<le> showerGallons c' \<and> toiletGallons c \<le> toiletGallons c' \<and>
      kitchenGallons c \<le> kitchenGallons c' \<and>
      dishwasherGallons c \<le> dishwasherGallons c' \<and>
      laundryGallons c \<le> laundryGallons c' \<and> gardenGallons c \<le> gardenGallons c' \<and>
      poolGallons c \<le> poolGallons c' \<and> carWashGallons c \<le> carWashGallons c' \<and>
      energyGallons c \<le> energyGallons c' \<and> shoppingGallons c \<le> shoppingGallons c' \<and>
      otherGallons c \<le> otherGallons c')"

section \<open>Auxiliary facts\<close>

subsection \<open>Rounding\<close>

lemma floor_rat_numeral_divide [simp]:
  "\<lfloor>numeral a / numeral b :: rat\<rfloor> = numeral a div numeral b"
  using floor_divide_of_int_eq [of "numeral a" "numeral b", where ?'a = rat] by simp

lemma floor_rat_minus_numeral_divide [simp]:
  "\<lfloor>- (numeral a / numeral b) :: rat\<rfloor> = - numeral a div numeral b"
  using floor_divide_of_int_eq [of "- numeral a" "numeral b", where ?'a = rat] by simp

lemma floor_rat_one_divide [simp]:
  "\<lfloor>1 / numeral b :: rat\<rfloor> = 1 div numeral b"
  using floor_divide_of_int_eq [of 1 "numeral b", where ?'a = rat] by simp

lemma Math_round_of_int_add: "Math_round (of_int n + x) = of_int n + Math_round x"
proof -
  have "\<lfloor>of_int n + x + 1 / 2\<rfloor> = n + \<lfloor>x + 1 / 2\<rfloor>"
    using int_add_floor [of n "x + 1 / 2"] by (simp add: add.assoc)
  then show ?thesis by (simp add: Math_round_def)
qed

lemma Math_round_of_int: "Math_round (of_int n) = of_int n"
  using Math_round_of_int_add [of n 0] by (simp add: Math_round_def)

lemma Math_round_idem: "Math_round (Math_round x) = Math_round x"
  unfolding Math_round_def by (rule Math_round_of_int [unfolded Math_round_def])

lemma Math_round_add_round: "Math_round (Math_round x + y) = Math_round x + Math_round y"
  unfolding Math_round_def by (rule Math_round_of_int_add [unfolded Math_round_def])

lemma Math_round_mono: "x \<le> y \<Longrightarrow> Math_round x \<le> Math_round y"
  by (simp add: Math_round_def floor_mono)

lemma Math_round_nonneg: "0 \<le> x \<Longrightarrow> 0 \<le> Math_round x"
  by (simp add: Math_round_def)

lemma Math_round_zero: "Math_round 0 = 0"
  by (simp add: Math_round_def)

subsection \<open>Fields of the shared tail\<close>

lemma category_sum_total_update: "category_sum (c\<lparr>totalGallons := t\<rparr>) = category_sum c"
  by (simp add: category_sum_def)

lemma nonneg_correction_categories:
  "showerGallons (nonneg_correction c) = showerGallons c"
  "toiletGallons (nonneg_correction c) = toiletGallons c"
  "kitchenGallons (nonneg_correction c) = kitchenGallons c"
  "dishwasherGallons (nonneg_correction c) = dishwasherGallons c"
  "laundryGallons (nonneg_correction c) = laundryGallons c"
  "gardenGallons (nonneg_correction c) = gardenGallons c"
  "poolGallons (nonneg_correction c) = poolGallons c"
  "carWashGallons (nonneg_correction c) = carWashGallons c"
  "energyGallons (nonneg_correction c) = energyGallons c"
  "shoppingGallons (nonneg_correction c) = shoppingGallons c"
  by (simp_all add: nonneg_correction_def)

lemma nonneg_correction_other:
  "otherGallons (nonneg_correction c) =
     (if totalGallons c < 0 then otherGallons c + \<bar>totalGallons c\<bar> else otherGallons c)"
  by (simp add: nonneg_correction_def)

lemma nonneg_correction_total:
  "totalGallons (nonneg_correction c) = (if totalGallons c < 0 then 0 else totalGallons c)"
  by (simp add: nonneg_correction_def)

lemma nonneg_correction_total_nonneg: "0 \<le> totalGallons (nonneg_correction c)"
  by (simp add: nonneg_correction_total)

lemma nonneg_correction_sum:
  "totalGallons c = category_sum c \<Longrightarrow>
   totalGallons (nonneg_correction c) = category_sum (nonneg_correction c)"
  by (simp add: nonneg_correction_def category_sum_def)

lemma round_all_fields:
  "totalGallons (round_all c) = Math_round (totalGallons c)"
  "showerGallons (round_all c) = Math_round (showerGallons c)"
  "toiletGallons (round_all c) = Math_round (toiletGallons c)"
  "kitchenGallons (round_all c) = Math_round (kitchenGallons c)"
  "dishwasherGallons (round_all c) = Math_round (dishwasherGallons c)"
  "laundryGallons (round_all c) = Math_round (laundryGallons c)"
  "gardenGallons (round_all c) = Math_round (gardenGallons c)"
  "poolGallons (round_all c) = Math_round (poolGallons c)"
  "carWashGallons (round_all c) = Math_round (carWashGallons c)"
  "energyGallons (round_all c) = Math_round (energyGallons c)"
  "shoppingGallons (round_all c) = Math_round (shoppingGallons c)"
  "otherGallons (round_all c) = Math_round (otherGallons c)"
  by (simp_all add: round_all_def)

subsection \<open>Fields of \<open>initial_raw\<close>\<close>

lemma initial_raw_total: "totalGallons (initial_raw r) = category_sum (initial_raw r)"
  by (simp add: initial_raw_def Let_def category_sum_def)

lemma initial_raw_toilet: "toiletGallons (initial_raw r) = 0"
  by (simp add: initial_raw_def Let_def)

lemma initial_raw_kitchen: "kitchenGallons (initial_raw r) = 0"
  by (simp add: initial_raw_def Let_def)

lemma initial_raw_other: "otherGallons (initial_raw r) = 0"
  by (simp add: initial_raw_def Let_def)

lemma initial_raw_shower:
  "showerGallons (initial_raw r) =
     (if ''showerhead'' \<in> set (or_empty (appliances r)) then - 63 else 0) +
     (if truthy (bathsPerMonth r) then 80 * num (bathsPerMonth r) / 30 else 0)"
  by (simp add: initial_raw_def Let_def)

subsection \<open>The daily steps as record updates\<close>

lemma step_showerMinutes_eq:
  "step_showerMinutes d r c = c\<lparr>showerGallons := showerGallons c + shower_delta d r\<rparr>"
  by (simp add: step_showerMinutes_def shower_delta_def)

lemma step_bathroomSinkMinutes_eq:
  "step_bathroomSinkMinutes d r c =
     c\<lparr>kitchenGallons := kitchenGallons c +
          (if truthy (bathroomSinkMinutes d)
           then (if includes_opt (appliances r) ''bathroom_sink'' then 15 / 10 else 22 / 10)
                  * num (bathroomSinkMinutes d)
           else 0)\<rparr>"
  by (simp add: step_bathroomSinkMinutes_def)

lemma step_kitchenSinkMinutes_eq:
  "step_kitchenSinkMinutes d r c =
     c\<lparr>kitchenGallons := kitchenGallons c +
          (if truthy (kitchenSinkMinutes d)
           then (if includes_opt (appliances r) ''kitchen_sink'' then 15 / 10 else 22 / 10)
                  * num (kitchenSinkMinutes d)
           else 0)\<rparr>"
  by (simp add: step_kitchenSinkMinutes_def)

lemma step_toiletFlushes_eq:
  "step_toiletFlushes d r c = c\<lparr>toiletGallons := toiletGallons c + toilet_delta d r\<rparr>"
  by (simp add: step_toiletFlushes_def toilet_delta_def)

lemma step_rainwaterCollected_eq:
  "step_rainwaterCollected d c =
     c\<lparr>totalGallons := totalGallons c -
          (if truthy (rainwaterCollected d) then num (rainwaterCollected d) else 0)\<rparr>"
  by (simp add: step_rainwaterCollected_def)

lemma step_milesDriven_eq:
  "step_milesDriven d c =
     c\<lparr>otherGallons := otherGallons c +
          (if truthy (milesDriven d) then 165 / 1000 * num (milesDriven d) else 0)\<rparr>"
  by (simp add: step_milesDriven_def)

lemma step_recycledPaper_eq:
  "step_recycledPaper d c =
     c\<lparr>otherGallons := otherGallons c +
          (if truthy (recycledPaper d) then 4 / 100 * num (recycledPaper d) else 0)\<rparr>"
  by (simp add: step_recycledPaper_def)

lemma step_recycledPlastic_eq:
  "step_recycledPlastic d c =
     c\<lparr>totalGallons := totalGallons c -
          (if truthy (recycledPlastic d) then 3 / 100 * num (recycledPlastic d) else 0)\<rparr>"
  by (simp add: step_recycledPlastic_def)

lemma step_recycledBottlesCans_eq:
  "step_recycledBottlesCans d c =
     c\<lparr>totalGallons := totalGallons c -
          (if truthy (recycledBottlesCans d)
           then 3 / 100 * num (recycledBottlesCans d) else 0)\<rparr>"
  by (simp add: step_recycledBottlesCans_def)

lemma step_veggiesConsumed_eq:
  "step_veggiesConsumed d c =
     c\<lparr>otherGallons := otherGallons c +
          (if truthy (veggiesConsumed d) then 85 / 1000 * num (veggiesConsumed d) else 0)\<rparr>"
  by (simp add: step_veggiesConsumed_def)

lemma step_meatConsumed_eq:
  "step_meatConsumed d c =
     c\<lparr>otherGallons := otherGallons c +
          (if truthy (meatConsumed d) then 2 * num (meatConsumed d) else 0)\<rparr>"
  by (simp add: step_meatConsumed_def)

lemma step_petFoodUsed_eq:
  "step_petFoodUsed d c =
     c\<lparr>otherGallons := otherGallons c +
          (if truthy (petFoodUsed d) then 7 / 10 * num (petFoodUsed d) else 0)\<rparr>"
  by (simp add: step_petFoodUsed_def)

lemmas step_eqs =
  step_showerMinutes_eq step_bathroomSinkMinutes_eq step_kitchenSinkMinutes_eq
  step_toiletFlushes_eq step_rainwaterCollected_eq step_milesDriven_eq
  step_recycledPaper_eq step_recycledPlastic_eq step_recycledBottlesCans_eq
  step_veggiesConsumed_eq step_meatConsumed_eq step_petFoodUsed_eq

lemma daily_steps_categories:
  "showerGallons (daily_steps d r c) = showerGallons c + shower_delta d r"
  "toiletGallons (daily_steps d r c) = toiletGallons c + toilet_delta d r"
  "kitchenGallons (daily_steps d r c) = kitchenGallons c + kitchen_delta d r"
  "dishwasherGallons (daily_steps d r c) = dishwasherGallons c"
  "laundryGallons (daily_steps d r c) = laundryGallons c"
  "gardenGallons (daily_steps d r c) = gardenGallons c"
  "poolGallons (daily_steps d r c) = poolGallons c"
  "carWashGallons (daily_steps d r c) = carWashGallons c"
  "energyGallons (daily_steps d r c) = energyGallons c"
  "shoppingGallons (daily_steps d r c) = shoppingGallons c"
  "otherGallons (daily_steps d r c) = otherGallons c + other_delta d"
  by (simp_all add: daily_steps_def step_eqs kitchen_delta_def other_delta_def)

lemma daily_steps_total:
  "totalGallons (daily_steps d r c) =
     totalGallons c
       - (if truthy (rainwaterCollected d) then num (rainwaterCollected d) else 0)
       - (if truthy (recycledPlastic d) then 3 / 100 * num (recycledPlastic d) else 0)
       - (if truthy (recycledBottlesCans d)
          then 3 / 100 * num (recycledBottlesCans d) else 0)"
  by (simp add: daily_steps_def step_eqs)

lemma recompute_total_record:
  "recompute_total c =
     \<lparr>totalGallons = category_sum c, showerGallons = showerGallons c,
      toiletGallons = toiletGallons c, kitchenGallons = kitchenGallons c,
      dishwasherGallons = dishwasherGallons c, laundryGallons = laundryGallons c,
      gardenGallons = gardenGallons c, poolGallons = poolGallons c,
      carWashGallons = carWashGallons c, energyGallons = energyGallons c,
      shoppingGallons = shoppingGallons c, otherGallons = otherGallons c\<rparr>"
  by (cases c) (simp add: recompute_total_def)

lemma category_sum_daily_steps:
  "category_sum (daily_steps d r c) =
     category_sum c + shower_delta d r + toilet_delta d r + kitchen_delta d r + other_delta d"
  by (simp add: category_sum_def daily_steps_categories)

lemma daily_raw_record:
  "daily_raw d r =
     (let b = calculateInitialWaterConsumption r in
      \<lparr>totalGallons =
         category_sum b + shower_delta d r + toilet_delta d r + kitchen_delta d r
           + other_delta d,
       showerGallons = showerGallons b + shower_delta d r,
       toiletGallons = toiletGallons b + toilet_delta d r,
       kitchenGallons = kitchenGallons b + kitchen_delta d r,
       dishwasherGallons = dishwasherGallons b, laundryGallons = laundryGallons b,
       gardenGallons = gardenGallons b, poolGallons = poolGallons b,
       carWashGallons = carWashGallons b, energyGallons = energyGallons b,
       shoppingGallons = shoppingGallons b,
       otherGallons = otherGallons b + other_delta d\<rparr>)"
  by (simp add: daily_raw_def recompute_total_record category_sum_daily_steps
        daily_steps_categories Let_def)

lemma daily_raw_total: "totalGallons (daily_raw d r) = category_sum (daily_raw d r)"
  by (simp add: daily_raw_def recompute_total_def category_sum_total_update)

lemma deltas_ignore_total_only_fields:
  "shower_delta (d\<lparr>rainwaterCollected := a, recycledPlastic := b,
      recycledBottlesCans := e\<rparr>) r = shower_delta d r"
  "toilet_delta (d\<lparr>rainwaterCollected := a, recycledPlastic := b,
      recycledBottlesCans := e\<rparr>) r = toilet_delta d r"
  "kitchen_delta (d\<lparr>rainwaterCollected := a, recycledPlastic := b,
      recycledBottlesCans := e\<rparr>) r = kitchen_delta d r"
  "other_delta (d\<lparr>rainwaterCollected := a, recycledPlastic := b,
      recycledBottlesCans := e\<rparr>) = other_delta d"
  by (simp_all add: shower_delta_def toilet_delta_def kitchen_delta_def other_delta_def)

subsection \<open>The returned values are integers\<close>

lemma Math_round_Ints: "Math_round x \<in> \<int>"
  by (simp add: Math_round_def)

lemma Math_round_of_Ints: "x \<in> \<int> \<Longrightarrow> Math_round x = x"
  by (auto elim!: Ints_cases simp: Math_round_of_int)

lemma category_sum_round_all_Ints: "category_sum (round_all c) \<in> \<int>"
  by (simp add: category_sum_def round_all_fields Math_round_Ints)

lemma baseline_category_sum_Ints: "category_sum (calculateInitialWaterConsumption r) \<in> \<int>"
  by (simp add: calculateInitialWaterConsumption_def category_sum_round_all_Ints)

lemma baseline_rounded:
  "Math_round (totalGallons (calculateInitialWaterConsumption r)) =
     totalGallons (calculateInitialWaterConsumption r)"
  "Math_round (showerGallons (calculateInitialWaterConsumption r)) =
     showerGallons (calculateInitialWaterConsumption r)"
  "Math_round (toiletGallons (calculateInitialWaterConsumption r)) =
     toiletGallons (calculateInitialWaterConsumption r)"
  "Math_round (kitchenGallons (calculateInitialWaterConsumption r)) =
     kitchenGallons (calculateInitialWaterConsumption r)"
  "Math_round (dishwasherGallons (calculateInitialWaterConsumption r)) =
     dishwasherGallons (calculateInitialWaterConsumption r)"
  "Math_round (laundryGallons (calculateInitialWaterConsumption r)) =
     laundryGallons (calculateInitialWaterConsumption r)"
  "Math_round (gardenGallons (calculateInitialWaterConsumption r)) =
     gardenGallons (calculateInitialWaterConsumption r)"
  "Math_round (poolGallons (calculateInitialWaterConsumption r)) =
     poolGallons (calculateInitialWaterConsumption r)"
  "Math_round (carWashGallons (calculateInitialWaterConsumption r)) =
     carWashGallons (calculateInitialWaterConsumption r)"
  "Math_round (energyGallons (calculateInitialWaterConsumption r)) =
     energyGallons (calculateInitialWaterConsumption r)"
  "Math_round (shoppingGallons (calculateInitialWaterConsumption r)) =
     shoppingGallons (calculateInitialWaterConsumption r)"
  "Math_round (otherGallons (calculateInitialWaterConsumption r)) =
     otherGallons (calculateInitialWaterConsumption r)"
  by (simp_all add: calculateInitialWaterConsumption_def round_all_fields Math_round_idem)

subsection \<open>The two functions on the concrete rows\<close>

lemmas js_primitives = truthy_def truthy_bool_def num_def or_empty_def includes_opt_def

lemma initial_raw_default_profile:
  "initial_raw default_profile =
     \<lparr>totalGallons = 291, showerGallons = 0, toiletGallons = 0, kitchenGallons = 0,
      dishwasherGallons = 0, laundryGallons = 0, gardenGallons = 0, poolGallons = 0,
      carWashGallons = 0, energyGallons = 0, shoppingGallons = 291, otherGallons = 0\<rparr>"
  by (simp add: initial_raw_def default_profile_def js_primitives category_sum_def)

lemma baseline_default_profile:
  "calculateInitialWaterConsumption default_profile =
     \<lparr>totalGallons = 291, showerGallons = 0, toiletGallons = 0, kitchenGallons = 0,
      dishwasherGallons = 0, laundryGallons = 0, gardenGallons = 0, poolGallons = 0,
      carWashGallons = 0, energyGallons = 0, shoppingGallons = 291, otherGallons = 0\<rparr>"
  by (simp add: calculateInitialWaterConsumption_def initial_raw_default_profile
        nonneg_correction_def round_all_def Math_round_def)

lemma initial_raw_profile_two_machines:
  "initial_raw profile_two_machines =
     \<lparr>totalGallons = 1467 / 5, showerGallons = 0, toiletGallons = 0, kitchenGallons = 0,
      dishwasherGallons = 8 / 15, laundryGallons = 28 / 15, gardenGallons = 0,
      poolGallons = 0, carWashGallons = 0, energyGallons = 0, shoppingGallons = 291,
      otherGallons = 0\<rparr>"
  by (simp add: initial_raw_def profile_two_machines_def default_profile_def js_primitives
        category_sum_def)

lemma baseline_profile_two_machines:
  "calculateInitialWaterConsumption profile_two_machines =
     \<lparr>totalGallons = 293, showerGallons = 0, toiletGallons = 0, kitchenGallons = 0,
      dishwasherGallons = 1, laundryGallons = 2, gardenGallons = 0, poolGallons = 0,
      carWashGallons = 0, energyGallons = 0, shoppingGallons = 291, otherGallons = 0\<rparr>"
  by (simp add: calculateInitialWaterConsumption_def initial_raw_profile_two_machines
        nonneg_correction_def round_all_def Math_round_def)

lemma initial_raw_profile_showerhead_only:
  "initial_raw profile_showerhead_only =
     \<lparr>totalGallons = - 63, showerGallons = - 63, toiletGallons = 0, kitchenGallons = 0,
      dishwasherGallons = 0, laundryGallons = 0, gardenGallons = 0, poolGallons = 0,
      carWashGallons = 0, energyGallons = 0, shoppingGallons = 0, otherGallons = 0\<rparr>"
  by (simp add: initial_raw_def profile_showerhead_only_def default_profile_def js_primitives
        category_sum_def)

lemma baseline_profile_showerhead_only:
  "calculateInitialWaterConsumption profile_showerhead_only =
     \<lparr>totalGallons = 0, showerGallons = - 63, toiletGallons = 0, kitchenGallons = 0,
      dishwasherGallons = 0, laundryGallons = 0, gardenGallons = 0, poolGallons = 0,
      carWashGallons = 0, energyGallons = 0, shoppingGallons = 0, otherGallons = 63\<rparr>"
  by (simp add: calculateInitialWaterConsumption_def initial_raw_profile_showerhead_only
        nonneg_correction_def round_all_def Math_round_def)

lemma initial_raw_profile_deficit:
  "initial_raw profile_deficit =
     \<lparr>totalGallons = - 8599 / 150, showerGallons = - 173 / 3, toiletGallons = 0,
      kitchenGallons = 0, dishwasherGallons = 0, laundryGallons = 0, gardenGallons = 0,
      poolGallons = 0, carWashGallons = 0, energyGallons = 17 / 50, shoppingGallons = 0,
      otherGallons = 0\<rparr>"
  by (simp add: initial_raw_def profile_deficit_def default_profile_def js_primitives
        category_sum_def)

lemma baseline_profile_deficit:
  "calculateInitialWaterConsumption profile_deficit =
     \<lparr>totalGallons = 0, showerGallons = - 58, toiletGallons = 0, kitchenGallons = 0,
      dishwasherGallons = 0, laundryGallons = 0, gardenGallons = 0, poolGallons = 0,
      carWashGallons = 0, energyGallons = 0, shoppingGallons = 0, otherGallons = 57\<rparr>"
  by (simp add: calculateInitialWaterConsumption_def initial_raw_profile_deficit
        nonneg_correction_def round_all_def Math_round_def)

lemma deltas_no_activity:
  "shower_delta no_activity r = 0" "toilet_delta no_activity r = 0"
  "kitchen_delta no_activity r = 0" "other_delta no_activity = 0"
  by (simp_all add: shower_delta_def toilet_delta_def kitchen_delta_def other_delta_def
        no_activity_def truthy_def)

lemma deltas_no_logged_activity:
  assumes "no_logged_activity d"
  shows "shower_delta d r = 0" "toilet_delta d r = 0" "kitchen_delta d r = 0"
    "other_delta d = 0"
  using assms
  by (simp_all add: shower_delta_def toilet_delta_def kitchen_delta_def other_delta_def
        no_logged_activity_def)

lemma no_logged_activity_no_activity: "no_logged_activity no_activity"
  by (simp add: no_logged_activity_def no_activity_def truthy_def)




lemma daily_raw_no_activity:
  "daily_raw no_activity r =
     (calculateInitialWaterConsumption r)
       \<lparr>totalGallons := category_sum (calculateInitialWaterConsumption r)\<rparr>"
  by (simp add: daily_raw_record deltas_no_activity Let_def)

lemma daily_no_activity_two_machines:
  "calculateDailyWaterConsumption no_activity profile_two_machines =
     \<lparr>totalGallons = 294, showerGallons = 0, toiletGallons = 0, kitchenGallons = 0,
      dishwasherGallons = 1, laundryGallons = 2, gardenGallons = 0, poolGallons = 0,
      carWashGallons = 0, energyGallons = 0, shoppingGallons = 291, otherGallons = 0\<rparr>"
  by (simp add: calculateDailyWaterConsumption_def daily_raw_no_activity
        baseline_profile_two_machines category_sum_def nonneg_correction_def round_all_def
        Math_round_def)

lemma daily_raw_no_activity_deficit:
  "daily_raw no_activity profile_deficit =
     \<lparr>totalGallons = - 1, showerGallons = - 58, toiletGallons = 0, kitchenGallons = 0,
      dishwasherGallons = 0, laundryGallons = 0, gardenGallons = 0, poolGallons = 0,
      carWashGallons = 0, energyGallons = 0, shoppingGallons = 0, otherGallons = 57\<rparr>"
  by (simp add: daily_raw_no_activity baseline_profile_deficit category_sum_def)

lemma daily_no_activity_deficit:
  "calculateDailyWaterConsumption no_activity profile_deficit =
     \<lparr>totalGallons = 0, showerGallons = - 58, toiletGallons = 0, kitchenGallons = 0,
      dishwasherGallons = 0, laundryGallons = 0, gardenGallons = 0, poolGallons = 0,
      carWashGallons = 0, energyGallons = 0, shoppingGallons = 0, otherGallons = 58\<rparr>"
  by (simp add: calculateDailyWaterConsumption_def daily_raw_no_activity_deficit
        nonneg_correction_def round_all_def Math_round_def)





lemma baseline_shower:
  "showerGallons (calculateInitialWaterConsumption r) =
     Math_round (showerGallons (initial_raw r))"
  by (simp add: calculateInitialWaterConsumption_def round_all_fields
        nonneg_correction_categories)

lemma daily_shower:
  "showerGallons (calculateDailyWaterConsumption d r) =
     showerGallons (calculateInitialWaterConsumption r) + Math_round (shower_delta d r)"
  by (simp add: calculateDailyWaterConsumption_def round_all_fields
        nonneg_correction_categories daily_raw_record Let_def baseline_shower
        Math_round_add_round)

lemma daily_raw_shower:
  "showerGallons (daily_raw d r) =
     showerGallons (calculateInitialWaterConsumption r) + shower_delta d r"
  by (simp add: daily_raw_record Let_def)

lemma shower_delta_rate:
  "shower_delta (d\<lparr>showerMinutes := Some m\<rparr>) r =
     (if includes_opt (appliances r) ''showerhead'' then 18 / 10 else 25 / 10) * m"
  by (simp add: shower_delta_def truthy_def num_def)

subsection \<open>Defaults for absent fields\<close>

lemma default_primitives:
  "truthy (default_num x) = truthy x"
  "num (default_num x) = num x"
  "truthy_bool (default_bool b) = truthy_bool b"
  "or_empty (default_list a) = or_empty a"
  "includes_opt (default_list a) tag = includes_opt a tag"
  by (simp_all add: default_num_def default_bool_def default_list_def js_primitives
        split: option.splits)

lemma default_enum_eq: "tag \<noteq> ''none'' \<Longrightarrow> (default_enum s = Some tag) = (s = Some tag)"
  by (auto simp: default_enum_def split: option.splits)

lemma initial_raw_flat_categories:
  "gardenGallons (initial_raw r) =
     (if truthy_bool (hasGarden r) \<and> truthy (gardenArea r) \<and> truthy (gardenFrequency r)
      then 623 / 1000 * num (gardenArea r) * num (gardenFrequency r) / 30 else 0)"
  "poolGallons (initial_raw r) = (if truthy_bool (hasPool r) then 65 else 0)"
  "energyGallons (initial_raw r) =
     (if truthy (utilityPercentage r) then 34 / 100 * num (utilityPercentage r) else 0)"
  by (simp_all add: initial_raw_def Let_def)

lemma initial_raw_enum_categories:
  "dishwasherGallons (initial_raw r) =
     (if dishwasherType r = Some ''yes_efficient'' \<and> truthy (dishwasherFrequency r)
      then 4 * num (dishwasherFrequency r) / 30
      else if dishwasherType r = Some ''yes_not_efficient'' \<and> truthy (dishwasherFrequency r)
      then 10 * num (dishwasherFrequency r) / 30 else 0)"
  "laundryGallons (initial_raw r) =
     (if laundryType r = Some ''yes_efficient'' \<and> truthy (laundryFrequency r)
      then 14 * num (laundryFrequency r) / 30
      else if laundryType r = Some ''yes_not_efficient'' \<and> truthy (laundryFrequency r)
      then 20 * num (laundryFrequency r) / 30 else 0)"
  "carWashGallons (initial_raw r) =
     (if carWashMethod r = Some ''garden_hose'' \<and> truthy (carWashFrequency r)
      then 100 * num (carWashFrequency r) / 30
      else if carWashMethod r = Some ''drive_through'' \<and> truthy (carWashFrequency r)
      then 35 * num (carWashFrequency r) / 30
      else if carWashMethod r = Some ''self_service'' \<and> truthy (carWashFrequency r)
      then 17 * num (carWashFrequency r) / 30 else 0)"
  "shoppingGallons (initial_raw r) =
     (if shoppingHabits r = Some ''basics'' then 291
      else if shoppingHabits r = Some ''moderate'' then 583
      else if shoppingHabits r = Some ''addict'' then 1000 else 0)"
  by (simp_all add: initial_raw_def Let_def)

lemma initial_raw_with_defaults: "initial_raw (with_defaults_initial r) = initial_raw r"
proof -
  let ?w = "with_defaults_initial r"
  have c:
    "showerGallons (initial_raw ?w) = showerGallons (initial_raw r)"
    "toiletGallons (initial_raw ?w) = toiletGallons (initial_raw r)"
    "kitchenGallons (initial_raw ?w) = kitchenGallons (initial_raw r)"
    "dishwasherGallons (initial_raw ?w) = dishwasherGallons (initial_raw r)"
    "laundryGallons (initial_raw ?w) = laundryGallons (initial_raw r)"
    "gardenGallons (initial_raw ?w) = gardenGallons (initial_raw r)"
    "poolGallons (initial_raw ?w) = poolGallons (initial_raw r)"
    "carWashGallons (initial_raw ?w) = carWashGallons (initial_raw r)"
    "energyGallons (initial_raw ?w) = energyGallons (initial_raw r)"
    "shoppingGallons (initial_raw ?w) = shoppingGallons (initial_raw r)"
    "otherGallons (initial_raw ?w) = otherGallons (initial_raw r)"
    by (simp_all add: initial_raw_shower initial_raw_toilet initial_raw_kitchen
          initial_raw_other initial_raw_enum_categories initial_raw_flat_categories
          with_defaults_initial_def default_primitives default_enum_eq cong: if_cong)
  have t: "totalGallons (initial_raw ?w) = totalGallons (initial_raw r)"
    by (simp add: initial_raw_total category_sum_def c)
  show ?thesis
    by (rule consumption.equality) (simp_all add: c t)
qed

lemma deltas_with_defaults:
  "shower_delta (with_defaults_daily d) r = shower_delta d r"
  "toilet_delta (with_defaults_daily d) r = toilet_delta d r"
  "kitchen_delta (with_defaults_daily d) r = kitchen_delta d r"
  "other_delta (with_defaults_daily d) = other_delta d"
  "shower_delta d (with_defaults_initial r) = shower_delta d r"
  "toilet_delta d (with_defaults_initial r) = toilet_delta d r"
  "kitchen_delta d (with_defaults_initial r) = kitchen_delta d r"
  by (simp_all add: shower_delta_def toilet_delta_def kitchen_delta_def other_delta_def
        with_defaults_daily_def with_defaults_initial_def default_primitives cong: if_cong)

subsection \<open>Categories of the two results\<close>

lemma baseline_categories:
  "dishwasherGallons (calculateInitialWaterConsumption r) =
     Math_round (dishwasherGallons (initial_raw r))"
  "laundryGallons (calculateInitialWaterConsumption r) =
     Math_round (laundryGallons (initial_raw r))"
  "carWashGallons (calculateInitialWaterConsumption r) =
     Math_round (carWashGallons (initial_raw r))"
  "shoppingGallons (calculateInitialWaterConsumption r) =
     Math_round (shoppingGallons (initial_raw r))"
  by (simp_all add: calculateInitialWaterConsumption_def round_all_fields
        nonneg_correction_categories)

lemma num_nonneg: "nonneg_field x \<Longrightarrow> 0 \<le> num x"
  by (simp add: nonneg_field_def num_def split: option.splits)

lemma deltas_nonneg:
  assumes "valid_activity d"
  shows "0 \<le> shower_delta d r" "0 \<le> toilet_delta d r" "0 \<le> kitchen_delta d r"
    "0 \<le> other_delta d"
proof -
  note n = assms [unfolded valid_activity_def]
  show "0 \<le> shower_delta d r"
    using n by (simp add: shower_delta_def num_nonneg)
  show "0 \<le> toilet_delta d r"
    using n by (simp add: toilet_delta_def num_nonneg)
  have "0 \<le> num (bathroomSinkMinutes d)" "0 \<le> num (kitchenSinkMinutes d)"
    using n by (simp_all add: num_nonneg)
  then show "0 \<le> kitchen_delta d r"
    unfolding kitchen_delta_def by (intro add_nonneg_nonneg) simp_all
  have "0 \<le> num (milesDriven d)" "0 \<le> num (recycledPaper d)"
    "0 \<le> num (veggiesConsumed d)" "0 \<le> num (meatConsumed d)" "0 \<le> num (petFoodUsed d)"
    using n by (simp_all add: num_nonneg)
  then show "0 \<le> other_delta d"
    unfolding other_delta_def by (intro add_nonneg_nonneg) simp_all
qed

lemma Math_round_add_nonneg:
  "Math_round x = x \<Longrightarrow> 0 \<le> y \<Longrightarrow> x \<le> Math_round (x + y)"
  using Math_round_mono [of x "x + y"] by simp

lemma nonneg_correction_other_ge: "otherGallons c \<le> otherGallons (nonneg_correction c)"
  by (simp add: nonneg_correction_other)

lemma valid_activity_busy_day: "valid_activity busy_day"
  by (simp add: valid_activity_def busy_day_def nonneg_field_def)

lemma daily_busy_day:
  "calculateDailyWaterConsumption busy_day default_profile =
     \<lparr>totalGallons = 349, showerGallons = 18, toiletGallons = 14, kitchenGallons = 18,
      dishwasherGallons = 0, laundryGallons = 0, gardenGallons = 0, poolGallons = 0,
      carWashGallons = 0, energyGallons = 0, shoppingGallons = 291, otherGallons = 9\<rparr>"
proof -
  have "shower_delta busy_day default_profile = 35 / 2"
    "toilet_delta busy_day default_profile = 14"
    "kitchen_delta busy_day default_profile = 88 / 5"
    "other_delta busy_day = 1833 / 200"
    by (simp_all add: shower_delta_def toilet_delta_def kitchen_delta_def other_delta_def
          busy_day_def default_profile_def js_primitives)
  then have "daily_raw busy_day default_profile =
     \<lparr>totalGallons = 69853 / 200, showerGallons = 35 / 2, toiletGallons = 14,
      kitchenGallons = 88 / 5, dishwasherGallons = 0, laundryGallons = 0,
      gardenGallons = 0, poolGallons = 0, carWashGallons = 0, energyGallons = 0,
      shoppingGallons = 291, otherGallons = 1833 / 200\<rparr>"
    by (simp add: daily_raw_record baseline_default_profile category_sum_def)
  then show ?thesis
    by (simp add: calculateDailyWaterConsumption_def nonneg_correction_def round_all_def
          Math_round_def)
qed

section \<open>Properties of the estimation model\<close>

subsection \<open>Rainwater, recycled plastic and recycled bottles and cans\<close>

text \<open>
  Claim C1. Steps 5, 8 and 9 of the Daily Adjuster subtract from the working copy's
  \<open>totalGallons\<close> only (first conjunct: what the twelve steps leave in that field). The
  line after step 12 overwrites the field with the sum of the eleven categories, so the
  returned object, in every category and in the total, is the one returned for the same
  log with \<open>rainwaterCollected\<close>, \<open>recycledPlastic\<close> and \<open>recycledBottlesCans\<close> set to
  zero.
\<close>

theorem total_only_subtractions_discarded:
  "totalGallons (daily_steps d r c) =
     totalGallons c
       - (if truthy (rainwaterCollected d) then num (rainwaterCollected d) else 0)
       - (if truthy (recycledPlastic d) then 3 / 100 * num (recycledPlastic d) else 0)
       - (if truthy (recycledBottlesCans d)
          then 3 / 100 * num (recycledBottlesCans d) else 0)
   \<and> calculateDailyWaterConsumption
         (d\<lparr>rainwaterCollected := Some 0, recycledPlastic := Some 0,
            recycledBottlesCans := Some 0\<rparr>) r =
       calculateDailyWaterConsumption d r"
proof
  show "totalGallons (daily_steps d r c) =
     totalGallons c
       - (if truthy (rainwaterCollected d) then num (rainwaterCollected d) else 0)
       - (if truthy (recycledPlastic d) then 3 / 100 * num (recycledPlastic d) else 0)
       - (if truthy (recycledBottlesCans d)
          then 3 / 100 * num (recycledBottlesCans d) else 0)"
    by (rule daily_steps_total)
next
  show "calculateDailyWaterConsumption
         (d\<lparr>rainwaterCollected := Some 0, recycledPlastic := Some 0,
            recycledBottlesCans := Some 0\<rparr>) r =
       calculateDailyWaterConsumption d r"
    by (simp add: calculateDailyWaterConsumption_def daily_raw_record
          deltas_ignore_total_only_fields)
qed

subsection \<open>Total and sum of the categories\<close>



subsection \<open>Non-negative total\<close>

text \<open>
  Claim C3. Both functions return a total that is at least \<open>0\<close>. When the total computed
  from the categories is negative, the returned total is \<open>0\<close> and the returned
  \<open>otherGallons\<close> is the rounding of the other category plus the absolute value of that
  total; the ten remaining categories are not touched by the correction.
\<close>

theorem total_nonneg_deficit_into_other:
  "0 \<le> totalGallons (calculateInitialWaterConsumption r)
   \<and> 0 \<le> totalGallons (calculateDailyWaterConsumption d r)
   \<and> (totalGallons (initial_raw r) < 0 \<longrightarrow>
        totalGallons (calculateInitialWaterConsumption r) = 0
        \<and> otherGallons (calculateInitialWaterConsumption r) =
            Math_round (otherGallons (initial_raw r) + \<bar>totalGallons (initial_raw r)\<bar>)
        \<and> category_sum (nonneg_correction (initial_raw r)) = 0)
   \<and> (totalGallons (daily_raw d r) < 0 \<longrightarrow>
        totalGallons (calculateDailyWaterConsumption d r) = 0
        \<and> otherGallons (calculateDailyWaterConsumption d r) =
            Math_round (otherGallons (daily_raw d r) + \<bar>totalGallons (daily_raw d r)\<bar>)
        \<and> category_sum (nonneg_correction (daily_raw d r)) = 0)"
proof -
  have corr: "totalGallons c < 0 \<Longrightarrow> totalGallons c = category_sum c \<Longrightarrow>
      totalGallons (round_all (nonneg_correction c)) = 0
      \<and> otherGallons (round_all (nonneg_correction c)) =
          Math_round (otherGallons c + \<bar>totalGallons c\<bar>)
      \<and> category_sum (nonneg_correction c) = 0" for c
    using nonneg_correction_sum [of c]
    by (simp add: round_all_fields nonneg_correction_total nonneg_correction_other
          Math_round_zero)
  have nonneg: "0 \<le> totalGallons (round_all (nonneg_correction c))" for c
    by (simp add: round_all_fields Math_round_nonneg nonneg_correction_total_nonneg)
  show ?thesis
    using corr [OF _ initial_raw_total, of r] corr [OF _ daily_raw_total, of d r]
      nonneg [of "initial_raw r"] nonneg [of "daily_raw d r"]
    by (simp add: calculateInitialWaterConsumption_def calculateDailyWaterConsumption_def)
qed

theorem total_nonneg_deficit_into_other_witness:
  "totalGallons (initial_raw profile_showerhead_only) < 0
   \<and> totalGallons (calculateInitialWaterConsumption profile_showerhead_only) = 0
   \<and> otherGallons (calculateInitialWaterConsumption profile_showerhead_only) = 63
   \<and> totalGallons (daily_raw no_activity profile_deficit) < 0
   \<and> totalGallons (calculateDailyWaterConsumption no_activity profile_deficit) = 0
   \<and> otherGallons (calculateDailyWaterConsumption no_activity profile_deficit) = 58"
proof -
  have i: "totalGallons (initial_raw profile_showerhead_only) < 0"
    by (simp add: initial_raw_profile_showerhead_only)
  have d: "totalGallons (daily_raw no_activity profile_deficit) < 0"
    by (simp add: daily_raw_no_activity_deficit)
  have r63: "Math_round 63 = 63" and r58: "Math_round 58 = 58"
    by (simp_all add: Math_round_def)
  from i total_nonneg_deficit_into_other [of profile_showerhead_only no_activity]
  have "totalGallons (calculateInitialWaterConsumption profile_showerhead_only) = 0
      \<and> otherGallons (calculateInitialWaterConsumption profile_showerhead_only) = 63"
    by (simp add: initial_raw_profile_showerhead_only r63)
  moreover from d total_nonneg_deficit_into_other [of profile_deficit no_activity]
  have "totalGallons (calculateDailyWaterConsumption no_activity profile_deficit) = 0
      \<and> otherGallons (calculateDailyWaterConsumption no_activity profile_deficit) = 58"
    by (simp add: daily_raw_no_activity_deficit r58)
  ultimately show ?thesis using i d by simp
qed

subsection \<open>An empty activity log\<close>

text \<open>
  Claim C4, as stated, fails: the Daily Adjuster starts from the rounded baseline and
  recomputes the total as the sum of the rounded categories. For the profile with two
  efficient machines the baseline total is \<open>293\<close> and the adjusted total, on a log of
  zeros, is \<open>294\<close>.
\<close>

theorem empty_log_differs_from_baseline:
  "calculateDailyWaterConsumption no_activity profile_two_machines \<noteq>
     calculateInitialWaterConsumption profile_two_machines
   \<and> totalGallons (calculateDailyWaterConsumption no_activity profile_two_machines) = 294
   \<and> totalGallons (calculateInitialWaterConsumption profile_two_machines) = 293"
  by (simp add: daily_no_activity_two_machines baseline_profile_two_machines)

text \<open>
  Claim C4, amended. On a log in which every field is absent or zero, the Daily Adjuster
  returns the baseline's value in each of the ten categories other than \<open>other\<close>; its
  total is the sum of the baseline's eleven returned categories, or \<open>0\<close> when that sum is
  negative; and its \<open>other\<close> category is the baseline's, increased by the absolute value
  of that sum when it is negative.
\<close>

theorem empty_log_keeps_baseline_categories:
  assumes "no_logged_activity d"
  shows "showerGallons (calculateDailyWaterConsumption d r) =
           showerGallons (calculateInitialWaterConsumption r)
     \<and> toiletGallons (calculateDailyWaterConsumption d r) =
           toiletGallons (calculateInitialWaterConsumption r)
     \<and> kitchenGallons (calculateDailyWaterConsumption d r) =
           kitchenGallons (calculateInitialWaterConsumption r)
     \<and> dishwasherGallons (calculateDailyWaterConsumption d r) =
           dishwasherGallons (calculateInitialWaterConsumption r)
     \<and> laundryGallons (calculateDailyWaterConsumption d r) =
           laundryGallons (calculateInitialWaterConsumption r)
     \<and> gardenGallons (calculateDailyWaterConsumption d r) =
           gardenGallons (calculateInitialWaterConsumption r)
     \<and> poolGallons (calculateDailyWaterConsumption d r) =
           poolGallons (calculateInitialWaterConsumption r)
     \<and> carWashGallons (calculateDailyWaterConsumption d r) =
           carWashGallons (calculateInitialWaterConsumption r)
     \<and> energyGallons (calculateDailyWaterConsumption d r) =
           energyGallons (calculateInitialWaterConsumption r)
     \<and> shoppingGallons (calculateDailyWaterConsumption d r) =
           shoppingGallons (calculateInitialWaterConsumption r)
     \<and> totalGallons (calculateDailyWaterConsumption d r) =
           (if category_sum (calculateInitialWaterConsumption r) < 0 then 0
            else category_sum (calculateInitialWaterConsumption r))
     \<and> otherGallons (calculateDailyWaterConsumption d r) =
           (if category_sum (calculateInitialWaterConsumption r) < 0
            then otherGallons (calculateInitialWaterConsumption r)
                   + \<bar>category_sum (calculateInitialWaterConsumption r)\<bar>
            else otherGallons (calculateInitialWaterConsumption r))"
proof -
  let ?b = "calculateInitialWaterConsumption r"
  have raw: "daily_raw d r = ?b\<lparr>totalGallons := category_sum ?b\<rparr>"
    by (simp add: daily_raw_record deltas_no_logged_activity [OF assms] Let_def)
  have s: "Math_round (category_sum ?b) = category_sum ?b"
    by (rule Math_round_of_Ints) (rule baseline_category_sum_Ints)
  have "otherGallons ?b \<in> \<int>"
    using baseline_rounded(12) [of r] Math_round_Ints [of "otherGallons ?b"] by simp
  then have "otherGallons ?b - category_sum ?b \<in> \<int>"
    using baseline_category_sum_Ints [of r] by (simp add: Ints_diff)
  then have o: "Math_round (otherGallons ?b - category_sum ?b) =
      otherGallons ?b - category_sum ?b"
    by (rule Math_round_of_Ints)
  show ?thesis
    unfolding calculateDailyWaterConsumption_def raw
    by (simp add: round_all_fields nonneg_correction_categories nonneg_correction_total
          nonneg_correction_other baseline_rounded s o Math_round_zero)
qed

theorem empty_log_keeps_baseline_categories_witness:
  "no_logged_activity no_activity
   \<and> dishwasherGallons (calculateDailyWaterConsumption no_activity profile_two_machines) = 1
   \<and> laundryGallons (calculateDailyWaterConsumption no_activity profile_two_machines) = 2
   \<and> shoppingGallons (calculateDailyWaterConsumption no_activity profile_two_machines) = 291
   \<and> totalGallons (calculateDailyWaterConsumption no_activity profile_two_machines) = 294"
  using empty_log_keeps_baseline_categories
    [OF no_logged_activity_no_activity, of profile_two_machines]
  by (simp add: no_logged_activity_no_activity baseline_profile_two_machines category_sum_def)

subsection \<open>The showerhead subtraction\<close>

text \<open>
  Claim C5. For a profile whose appliances contain \<open>showerhead\<close> and whose
  \<open>bathsPerMonth\<close> is \<open>b\<close>, the Baseline Estimator returns
  \<open>showerGallons = round(-63 + 80 * b / 30)\<close>: the \<open>63\<close> is subtracted flat and only the
  baths are divided by \<open>30\<close>. For \<open>b = 30\<close> this is \<open>round(-63 + 80) = 17\<close>, whatever the
  other fields hold.
\<close>

theorem showerhead_flat_subtraction:
  assumes "appliances r = Some tags" and "''showerhead'' \<in> set tags"
    and "bathsPerMonth r = Some b"
  shows "showerGallons (calculateInitialWaterConsumption r) = Math_round (- 63 + 80 * b / 30)
     \<and> (b = 30 \<longrightarrow> showerGallons (calculateInitialWaterConsumption r) = 17)"
proof -
  have "showerGallons (initial_raw r) = - 63 + 80 * b / 30"
    using assms by (simp add: initial_raw_shower or_empty_def truthy_def num_def)
  then have eq: "showerGallons (calculateInitialWaterConsumption r) =
      Math_round (- 63 + 80 * b / 30)"
    by (simp add: baseline_shower)
  have "Math_round (- 63 + 80 * 30 / 30) = 17"
    by (simp add: Math_round_def)
  with eq show ?thesis by simp
qed

theorem showerhead_flat_subtraction_witness:
  "appliances profile_showerhead_baths = Some [''showerhead'']
   \<and> ''showerhead'' \<in> set [''showerhead'']
   \<and> bathsPerMonth profile_showerhead_baths = Some 30
   \<and> showerGallons (calculateInitialWaterConsumption profile_showerhead_baths) = 17"
proof -
  have a: "appliances profile_showerhead_baths = Some [''showerhead'']"
    by (simp add: profile_showerhead_baths_def default_profile_def)
  have m: "''showerhead'' \<in> set [''showerhead'']"
    by simp
  have b: "bathsPerMonth profile_showerhead_baths = Some 30"
    by (simp add: profile_showerhead_baths_def default_profile_def)
  from showerhead_flat_subtraction [OF a m b] a m b show ?thesis by simp
qed

subsection \<open>Gallons per shower minute\<close>

text \<open>
  Claim C6. Without the \<open>showerhead\<close> tag, one more shower minute adds exactly \<open>2.5\<close> to
  the shower category of the working copy before rounding, and a log with ten shower
  minutes returns a shower category that is the baseline's plus \<open>25\<close>. With the tag, one
  more minute adds \<open>1.8\<close> before rounding.
\<close>

theorem shower_minutes_rate:
  "(\<not> includes_opt (appliances r) ''showerhead'' \<longrightarrow>
      showerGallons (daily_raw (d\<lparr>showerMinutes := Some (m + 1)\<rparr>) r) =
        showerGallons (daily_raw (d\<lparr>showerMinutes := Some m\<rparr>) r) + 25 / 10
      \<and> showerGallons (daily_raw (d\<lparr>showerMinutes := Some m\<rparr>) r) =
          showerGallons (calculateInitialWaterConsumption r) + 25 / 10 * m
      \<and> showerGallons (calculateDailyWaterConsumption (d\<lparr>showerMinutes := Some 10\<rparr>) r) =
          showerGallons (calculateInitialWaterConsumption r) + 25)
   \<and> (includes_opt (appliances r) ''showerhead'' \<longrightarrow>
      showerGallons (daily_raw (d\<lparr>showerMinutes := Some (m + 1)\<rparr>) r) =
        showerGallons (daily_raw (d\<lparr>showerMinutes := Some m\<rparr>) r) + 18 / 10
      \<and> showerGallons (daily_raw (d\<lparr>showerMinutes := Some m\<rparr>) r) =
          showerGallons (calculateInitialWaterConsumption r) + 18 / 10 * m)"
proof -
  have r25: "Math_round 25 = 25"
    by (simp add: Math_round_def)
  show ?thesis
    by (simp add: daily_raw_shower daily_shower shower_delta_rate r25 algebra_simps)
qed

theorem shower_minutes_rate_witness:
  "\<not> includes_opt (appliances default_profile) ''showerhead''
   \<and> showerGallons (daily_raw (no_activity\<lparr>showerMinutes := Some (3 + 1)\<rparr>) default_profile)
       = showerGallons (daily_raw (no_activity\<lparr>showerMinutes := Some 3\<rparr>) default_profile)
           + 25 / 10
   \<and> showerGallons
        (calculateDailyWaterConsumption (no_activity\<lparr>showerMinutes := Some 10\<rparr>)
           default_profile) = 25
   \<and> includes_opt (appliances profile_showerhead_baths) ''showerhead''
   \<and> showerGallons
        (daily_raw (no_activity\<lparr>showerMinutes := Some (3 + 1)\<rparr>) profile_showerhead_baths)
       = showerGallons
           (daily_raw (no_activity\<lparr>showerMinutes := Some 3\<rparr>) profile_showerhead_baths)
           + 18 / 10"
proof -
  have n: "\<not> includes_opt (appliances default_profile) ''showerhead''"
    by (simp add: includes_opt_def default_profile_def)
  have y: "includes_opt (appliances profile_showerhead_baths) ''showerhead''"
    by (simp add: includes_opt_def profile_showerhead_baths_def default_profile_def)
  from n shower_minutes_rate [where r = default_profile and d = no_activity and m = 3]
    y shower_minutes_rate [where r = profile_showerhead_baths and d = no_activity and m = 3]
  show ?thesis by (simp add: baseline_default_profile)
qed

subsection \<open>Integer results\<close>


subsection \<open>Absent optional fields\<close>

text \<open>
  Claim C8. Neither function has a failing branch: the only member access on an optional
  field, \<open>appliances.includes\<close>, is guarded by \<open>|| []\<close> in the first function and by \<open>?.\<close> in
  the second, and every other field is read under a truthiness test or compared with
  \<open>===\<close>. Both functions return, on any rows, exactly what they return on the rows in
  which each absent numeric field is replaced by \<open>0\<close>, each absent boolean by \<open>false\<close>, each
  absent enum field by \<open>"none"\<close> and an absent appliances list by the empty list.
\<close>

theorem absent_fields_as_defaults:
  "calculateInitialWaterConsumption (with_defaults_initial r) =
     calculateInitialWaterConsumption r
   \<and> calculateDailyWaterConsumption (with_defaults_daily d) (with_defaults_initial r) =
       calculateDailyWaterConsumption d r
   \<and> calculateDailyWaterConsumption (with_defaults_daily d) r =
       calculateDailyWaterConsumption d r
   \<and> calculateDailyWaterConsumption d (with_defaults_initial r) =
       calculateDailyWaterConsumption d r"
proof -
  have i: "calculateInitialWaterConsumption (with_defaults_initial r) =
      calculateInitialWaterConsumption r"
    by (simp add: calculateInitialWaterConsumption_def initial_raw_with_defaults)
  have d_only: "daily_raw (with_defaults_daily d) r' = daily_raw d r'" for r'
    by (simp add: daily_raw_record deltas_with_defaults)
  have r_only: "daily_raw d' (with_defaults_initial r) = daily_raw d' r" for d'
    by (simp add: daily_raw_record i deltas_with_defaults)
  have both: "daily_raw (with_defaults_daily d) (with_defaults_initial r) = daily_raw d r"
    by (simp add: d_only r_only)
  show ?thesis
    by (simp add: i calculateDailyWaterConsumption_def both d_only r_only)
qed

text \<open>
  On the two rows with every field absent both functions return the breakdown of zeros.
\<close>

lemma absent_rows_all_zero:
  "calculateInitialWaterConsumption absent_profile =
     \<lparr>totalGallons = 0, showerGallons = 0, toiletGallons = 0, kitchenGallons = 0,
      dishwasherGallons = 0, laundryGallons = 0, gardenGallons = 0, poolGallons = 0,
      carWashGallons = 0, energyGallons = 0, shoppingGallons = 0, otherGallons = 0\<rparr>"
  "calculateDailyWaterConsumption absent_activity absent_profile =
     \<lparr>totalGallons = 0, showerGallons = 0, toiletGallons = 0, kitchenGallons = 0,
      dishwasherGallons = 0, laundryGallons = 0, gardenGallons = 0, poolGallons = 0,
      carWashGallons = 0, energyGallons = 0, shoppingGallons = 0, otherGallons = 0\<rparr>"
proof -
  have "initial_raw absent_profile =
     \<lparr>totalGallons = 0, showerGallons = 0, toiletGallons = 0, kitchenGallons = 0,
      dishwasherGallons = 0, laundryGallons = 0, gardenGallons = 0, poolGallons = 0,
      carWashGallons = 0, energyGallons = 0, shoppingGallons = 0, otherGallons = 0\<rparr>"
    by (simp add: initial_raw_def absent_profile_def js_primitives category_sum_def)
  then show b: "calculateInitialWaterConsumption absent_profile =
     \<lparr>totalGallons = 0, showerGallons = 0, toiletGallons = 0, kitchenGallons = 0,
      dishwasherGallons = 0, laundryGallons = 0, gardenGallons = 0, poolGallons = 0,
      carWashGallons = 0, energyGallons = 0, shoppingGallons = 0, otherGallons = 0\<rparr>"
    by (simp add: calculateInitialWaterConsumption_def nonneg_correction_def round_all_def
          Math_round_def)
  have "shower_delta absent_activity absent_profile = 0"
    "toilet_delta absent_activity absent_profile = 0"
    "kitchen_delta absent_activity absent_profile = 0"
    "other_delta absent_activity = 0"
    by (simp_all add: shower_delta_def toilet_delta_def kitchen_delta_def other_delta_def
          absent_activity_def truthy_def)
  then show "calculateDailyWaterConsumption absent_activity absent_profile =
     \<lparr>totalGallons = 0, showerGallons = 0, toiletGallons = 0, kitchenGallons = 0,
      dishwasherGallons = 0, laundryGallons = 0, gardenGallons = 0, poolGallons = 0,
      carWashGallons = 0, energyGallons = 0, shoppingGallons = 0, otherGallons = 0\<rparr>"
    by (simp add: calculateDailyWaterConsumption_def daily_raw_record b category_sum_def
          nonneg_correction_def round_all_def Math_round_def)
qed

subsection \<open>Logged activity never lowers a category\<close>

text \<open>
  Claim C9. For an activity log whose fields are absent or not negative, each of the
  eleven categories returned by the Daily Adjuster is at least the category returned by
  the Baseline Estimator on the same profile.
\<close>

theorem daily_categories_at_least_baseline:
  assumes "valid_activity d"
  shows "categories_le (calculateInitialWaterConsumption r)
           (calculateDailyWaterConsumption d r)"
proof -
  let ?b = "calculateInitialWaterConsumption r"
  note nn = deltas_nonneg [OF assms]
  have sh: "showerGallons ?b \<le> Math_round (showerGallons ?b + shower_delta d r)"
    by (rule Math_round_add_nonneg) (simp_all add: baseline_rounded nn)
  have to: "toiletGallons ?b \<le> Math_round (toiletGallons ?b + toilet_delta d r)"
    by (rule Math_round_add_nonneg) (simp_all add: baseline_rounded nn)
  have ki: "kitchenGallons ?b \<le> Math_round (kitchenGallons ?b + kitchen_delta d r)"
    by (rule Math_round_add_nonneg) (simp_all add: baseline_rounded nn)
  have "otherGallons ?b + other_delta d \<le> otherGallons (nonneg_correction (daily_raw d r))"
    using nonneg_correction_other_ge [of "daily_raw d r"]
    by (simp add: daily_raw_record Let_def)
  then have "otherGallons ?b \<le> otherGallons (nonneg_correction (daily_raw d r))"
    using nn(4) by simp
  then have "Math_round (otherGallons ?b)
      \<le> Math_round (otherGallons (nonneg_correction (daily_raw d r)))"
    by (rule Math_round_mono)
  then have ot: "otherGallons ?b
      \<le> Math_round (otherGallons (nonneg_correction (daily_raw d r)))"
    by (simp add: baseline_rounded)
  have rest:
    "dishwasherGallons (calculateDailyWaterConsumption d r) = dishwasherGallons ?b"
    "laundryGallons (calculateDailyWaterConsumption d r) = laundryGallons ?b"
    "gardenGallons (calculateDailyWaterConsumption d r) = gardenGallons ?b"
    "poolGallons (calculateDailyWaterConsumption d r) = poolGallons ?b"
    "carWashGallons (calculateDailyWaterConsumption d r) = carWashGallons ?b"
    "energyGallons (calculateDailyWaterConsumption d r) = energyGallons ?b"
    "shoppingGallons (calculateDailyWaterConsumption d r) = shoppingGallons ?b"
    by (simp_all add: calculateDailyWaterConsumption_def round_all_fields
          nonneg_correction_categories daily_raw_record Let_def baseline_rounded)
  have adj:
    "showerGallons (calculateDailyWaterConsumption d r) =
       Math_round (showerGallons ?b + shower_delta d r)"
    "toiletGallons (calculateDailyWaterConsumption d r) =
       Math_round (toiletGallons ?b + toilet_delta d r)"
    "kitchenGallons (calculateDailyWaterConsumption d r) =
       Math_round (kitchenGallons ?b + kitchen_delta d r)"
    "otherGallons (calculateDailyWaterConsumption d r) =
       Math_round (otherGallons (nonneg_correction (daily_raw d r)))"
    by (simp_all add: calculateDailyWaterConsumption_def round_all_fields
          nonneg_correction_categories daily_raw_record Let_def)
  show ?thesis
    unfolding categories_le_def rest adj using sh to ki ot by simp
qed

theorem daily_categories_at_least_baseline_witness:
  "valid_activity busy_day
   \<and> categories_le (calculateInitialWaterConsumption default_profile)
        (calculateDailyWaterConsumption busy_day default_profile)
   \<and> showerGallons (calculateDailyWaterConsumption busy_day default_profile) = 18
   \<and> otherGallons (calculateDailyWaterConsumption busy_day default_profile) = 9"
  using daily_categories_at_least_baseline [OF valid_activity_busy_day, of default_profile]
  by (simp add: valid_activity_busy_day daily_busy_day)

subsection \<open>Unrecognised enum strings\<close>

text \<open>
  Claim C10. The Baseline Estimator is a total function with no error branch, and a
  \<open>dishwasherType\<close>, \<open>laundryType\<close>, \<open>carWashMethod\<close> or \<open>shoppingHabits\<close> that is none of
  the strings the function compares with (for instance \<open>"efficient"\<close> instead of
  \<open>"yes_efficient"\<close>) contributes nothing: the field's category is returned as \<open>0\<close>.
\<close>

theorem unrecognised_enum_contributes_zero:
  "(dishwasherType r \<noteq> Some ''yes_efficient''
      \<and> dishwasherType r \<noteq> Some ''yes_not_efficient''
      \<longrightarrow> dishwasherGallons (calculateInitialWaterConsumption r) = 0)
   \<and> (laundryType r \<noteq> Some ''yes_efficient'' \<and> laundryType r \<noteq> Some ''yes_not_efficient''
      \<longrightarrow> laundryGallons (calculateInitialWaterConsumption r) = 0)
   \<and> (carWashMethod r \<noteq> Some ''garden_hose'' \<and> carWashMethod r \<noteq> Some ''drive_through''
      \<and> carWashMethod r \<noteq> Some ''self_service''
      \<longrightarrow> carWashGallons (calculateInitialWaterConsumption r) = 0)
   \<and> (shoppingHabits r \<noteq> Some ''basics'' \<and> shoppingHabits r \<noteq> Some ''moderate''
      \<and> shoppingHabits r \<noteq> Some ''addict''
      \<longrightarrow> shoppingGallons (calculateInitialWaterConsumption r) = 0)"
  by (simp add: baseline_categories initial_raw_enum_categories Math_round_zero)

theorem unrecognised_enum_contributes_zero_witness:
  "dishwasherType profile_unrecognised = Some ''efficient''
   \<and> laundryType profile_unrecognised = Some ''inefficient''
   \<and> carWashMethod profile_unrecognised = Some ''hand_wash''
   \<and> shoppingHabits profile_unrecognised = Some ''minimal''
   \<and> dishwasherGallons (calculateInitialWaterConsumption profile_unrecognised) = 0
   \<and> laundryGallons (calculateInitialWaterConsumption profile_unrecognised) = 0
   \<and> carWashGallons (calculateInitialWaterConsumption profile_unrecognised) = 0
   \<and> shoppingGallons (calculateInitialWaterConsumption profile_unrecognised) = 0"
proof -
  have e: "dishwasherType profile_unrecognised = Some ''efficient''"
    "laundryType profile_unrecognised = Some ''inefficient''"
    "carWashMethod profile_unrecognised = Some ''hand_wash''"
    "shoppingHabits profile_unrecognised = Some ''minimal''"
    by (simp_all add: profile_unrecognised_def default_profile_def)
  from unrecognised_enum_contributes_zero [of profile_unrecognised] show ?thesis
    by (simp add: e)
qed

end
